theory Spec2Isabelle
  imports Complex_Main
begin

section \<open>GEA GlucoFlow: the insulin-adjustment calculator of app.py\<close>

text \<open>
  The theory embeds the two calculation functions of \<^verbatim>\<open>src/app.py\<close>,
  \<^verbatim>\<open>get_deltas\<close> (lines 36-62) and \<^verbatim>\<open>calculate_insulin_adjustment\<close>
  (lines 64-188), and proves properties of them.

  Numbers. The Python values are floats; they are modelled as \<^typ>\<open>real\<close>. Every
  test of the source is a comparison against a constant, and the only arithmetic is one
  subtraction (the glucose change), one addition of a delta and \<^verbatim>\<open>max(0.0, _)\<close>.
  Rounding of these operations, infinities and NaN are outside the model.

  Strings. An f-string is kept as the list of its pieces, in order: literal runs, single
  code points outside ASCII, and the numbers it formats, each tagged with its format
  specification. The decimal digits a format produces are not computed.
\<close>

subsection \<open>Constants (lines 5-9)\<close>

definition GLUCOSE_TARGET_LOW_1 :: real where "GLUCOSE_TARGET_LOW_1 = 75.0"
definition GLUCOSE_TARGET_LOW_2 :: real where "GLUCOSE_TARGET_LOW_2 = 100.0"
definition GLUCOSE_TARGET_MID_1 :: real where "GLUCOSE_TARGET_MID_1 = 140.0"
definition GLUCOSE_TARGET_MID_2 :: real where "GLUCOSE_TARGET_MID_2 = 200.0"
definition PAUSE_DURATION_MINUTES :: nat where "PAUSE_DURATION_MINUTES = 30"

subsection \<open>Data structures (lines 13-33)\<close>

text \<open>
  A piece of an f-string:
  \<^item> \<open>Lit s\<close>: the ASCII characters \<open>s\<close>, as written in the source;
  \<^item> \<open>Chr n\<close>: the single Unicode code point \<open>n\<close> (accented letters, the Greek
    capital delta, the emoji of the icons);
  \<^item> \<open>F1 x\<close>: the number \<open>x\<close> under the format \<^verbatim>\<open>:.1f\<close>;
  \<^item> \<open>F0 x\<close>: the number \<open>x\<close> under the format \<^verbatim>\<open>:.0f\<close>;
  \<^item> \<open>FS0 x\<close>: the number \<open>x\<close> under the format \<^verbatim>\<open>:+.0f\<close>;
  \<^item> \<open>Str x\<close>: the float \<open>x\<close> with no format specification;
  \<^item> \<open>Dec n\<close>: the integer \<open>n\<close> with no format specification.
\<close>

datatype piece = Lit string | Chr nat | F1 real | F0 real | FS0 real | Str real | Dec nat

type_synonym fstring = "piece list"

record InsulinCalculatorFormData =
  currentGlucose :: real
  previousGlucose :: real
  currentInsulinFlow :: real

record InsulinRecommendation =
  actionTitle :: fstring
  details :: "fstring list"
  newFlowRateInfo :: fstring
  originalFlowRateInfo :: fstring
  calculationSummary :: "fstring option"
  isCritical :: bool
  colorClass :: string
  icon :: fstring

record Deltas =
  delta1 :: real
  delta2 :: real

subsection \<open>The delta table (lines 36-62)\<close>

definition get_deltas :: "real \<Rightarrow> Deltas" where
  "get_deltas current_flow =
    (if current_flow < 4 then \<lparr>delta1 = 0.5, delta2 = 1.0\<rparr>
     else if 4 \<le> current_flow \<and> current_flow < 6.5 then \<lparr>delta1 = 1.0, delta2 = 2.0\<rparr>
     else if 6.5 \<le> current_flow \<and> current_flow < 10 then \<lparr>delta1 = 1.5, delta2 = 3.0\<rparr>
     else if 10 \<le> current_flow \<and> current_flow < 15 then \<lparr>delta1 = 2.0, delta2 = 4.0\<rparr>
     else if 15 \<le> current_flow \<and> current_flow < 20 then \<lparr>delta1 = 3.0, delta2 = 6.0\<rparr>
     else if 20 \<le> current_flow \<and> current_flow < 25 then \<lparr>delta1 = 4.0, delta2 = 8.0\<rparr>
     else if current_flow \<ge> 25 then \<lparr>delta1 = 5.0, delta2 = 10.0\<rparr>
     else \<lparr>delta1 = 0.0, delta2 = 0.0\<rparr>)"

subsection \<open>The recommendation engine (lines 64-188)\<close>

text \<open>The test of line 80, without its negation.\<close>

definition passes_validation :: "InsulinCalculatorFormData \<Rightarrow> bool" where
  "passes_validation data =
    (currentGlucose data > 0 \<and> previousGlucose data > 0 \<and> currentInsulinFlow data \<ge> 0)"

text \<open>The dictionary returned at lines 82-91.\<close>

definition data_error :: InsulinRecommendation where
  "data_error =
    \<lparr>actionTitle = [Lit ''ERROR EN DATOS''],
     details = [[Lit ''Verifique que los valores de glucosa sean positivos (> 0) y el flujo de insulina sea no negativo (>= 0).'']],
     newFlowRateInfo = [Lit ''N/A''],
     originalFlowRateInfo = [Lit ''N/A''],
     calculationSummary = None,
     isCritical = True,
     colorClass = ''error'',
     icon = [Chr 0x1F6A8]\<rparr>"

text \<open>
  The dictionary returned by the exception handler at lines 99-108; \<open>e\<close> is the text of
  the exception caught.
\<close>

definition internal_error :: "string \<Rightarrow> real \<Rightarrow> InsulinRecommendation" where
  "internal_error e current_insulin_flow =
    \<lparr>actionTitle = [Lit ''ERROR INTERNO''],
     details = [[Lit ''Error calculando los deltas: '', Lit e],
                [Lit ''Revise el flujo de insulina ingresado.'']],
     newFlowRateInfo = [Lit ''N/A''],
     originalFlowRateInfo = [Lit ''Flujo ingresado: '', F1 current_insulin_flow, Lit '' cc/h''],
     calculationSummary = None,
     isCritical = True,
     colorClass = ''error'',
     icon = [Chr 0x2699, Chr 0xFE0F]\<rparr>"

text \<open>
  The body of the \<^verbatim>\<open>try\<close> block at line 96. \<open>Inl\<close> stands for an exception
  raised by the call; \<^verbatim>\<open>get_deltas\<close> has no \<^verbatim>\<open>raise\<close> and only compares its
  argument with constants, so on a number the call always returns. The section on untyped
  arguments below models the call with comparisons that can raise, and proves this of it
  (lemma \<open>get_deltas_py_float\<close>).
\<close>

definition try_get_deltas :: "real \<Rightarrow> string + Deltas" where
  "try_get_deltas current_insulin_flow = Inr (get_deltas current_insulin_flow)"

text \<open>
  The local variables that the protocol section assigns (lines 110-180). The fields
  \<open>details_var\<close> and \<open>icon_var\<close> are the locals \<^verbatim>\<open>details\<close> and
  \<^verbatim>\<open>icon\<close>, renamed apart from the keys of the result.
\<close>

record locals =
  action_title :: fstring
  details_var :: "fstring list"
  new_flow :: real
  is_critical :: bool
  color_class :: string
  icon_var :: fstring
  original_flow_rate_info :: fstring
  new_flow_rate_info :: fstring
  calculation_summary :: fstring

text \<open>The default values of lines 111-119.\<close>

definition defaults :: "InsulinCalculatorFormData \<Rightarrow> locals" where
  "defaults data =
    \<lparr>action_title = [Lit ''Revisar Datos/Protocolo''],
     details_var = [[Lit ''Los valores ingresados no generaron una recomendaci'', Chr 0xF3,
                     Lit ''n est'', Chr 0xE1, Lit ''ndar. Verifique los datos o consulte el protocolo cl'',
                     Chr 0xED, Lit ''nico.'']],
     new_flow = currentInsulinFlow data,
     is_critical = False,
     color_class = ''warning'',
     icon_var = [Chr 0x2753],
     original_flow_rate_info = [Lit ''Flujo actual: '', F1 (currentInsulinFlow data), Lit '' cc/h''],
     new_flow_rate_info = [Lit ''Mantener flujo: '', F1 (currentInsulinFlow data), Lit '' cc/h''],
     calculation_summary =
       [Lit ''Cambio de glucosa: '', FS0 (currentGlucose data - previousGlucose data),
        Lit '' mg/dL ('', F0 (previousGlucose data), Lit '' -> '', F0 (currentGlucose data),
        Lit '' mg/dL).'']\<rparr>"

text \<open>
  The statements of the hypoglycemia branch (lines 125-130).
\<close>

definition hypoglycemia :: "real \<Rightarrow> locals \<Rightarrow> locals" where
  "hypoglycemia current_glucose s =
    (let new_flow' = 0.0 in
     s\<lparr>action_title := [Chr 0xA1, Lit ''HIPOGLUCEMIA!''],
       details_var :=
         [[Lit ''Glucosa actual ('', F0 current_glucose, Lit '') < '', Str GLUCOSE_TARGET_LOW_1,
           Lit ''. CONSIDERAR SUSPENDER.''],
          [Lit ''Administrar carbohidratos seg'', Chr 0xFA, Lit ''n protocolo.''],
          [Lit ''Evaluar causa.'']],
       new_flow := new_flow',
       new_flow_rate_info := [Lit ''Nuevo flujo sugerido: '', F1 new_flow', Lit '' cc/h (SUSPENDER)''],
       calculation_summary :=
         calculation_summary s @ [Lit '' Suspensi'', Chr 0xF3, Lit ''n sugerida por hipoglucemia.''],
       is_critical := True,
       color_class := ''error'',
       icon_var := [Chr 0x1F6A8]\<rparr>)"

text \<open>
  The five statement sequences that the sub-branches of the other four bands repeat.
  Between two occurrences of the same sequence only the text of \<^verbatim>\<open>details\<close>
  differs; \<open>txt\<close> is that text (up to the formatted delta, where there is one).

  Hold, at lines 136, 148, 162 and 176.
\<close>

definition continue_unchanged :: "real \<Rightarrow> string \<Rightarrow> locals \<Rightarrow> locals" where
  "continue_unchanged current_insulin_flow txt s =
    s\<lparr>action_title := [Lit ''CONTINUAR SIN CAMBIOS''],
      details_var := [[Lit txt]],
      new_flow_rate_info := [Lit ''Mantener: '', F1 current_insulin_flow],
      color_class := ''success'',
      icon_var := [Chr 0x2705]\<rparr>"

text \<open>Decrease by one delta, at lines 138, 150, 164 and 178.\<close>

definition decrease_1_delta :: "real \<Rightarrow> Deltas \<Rightarrow> string \<Rightarrow> locals \<Rightarrow> locals" where
  "decrease_1_delta current_insulin_flow deltas txt s =
    (let flow_change_amount = - delta1 deltas;
         new_flow' = max 0.0 (current_insulin_flow + flow_change_amount)
     in s\<lparr>action_title := [Lit ''DISMINUIR FLUJO (1 Delta)''],
          new_flow := new_flow',
          details_var := [[Lit txt, F1 (delta1 deltas), Lit ''.'']],
          new_flow_rate_info := [Lit ''Nuevo: '', F1 new_flow'],
          calculation_summary :=
            calculation_summary s @ [Lit '' '', Chr 0x394, Lit '': -'', F1 (delta1 deltas), Lit ''.''],
          color_class := ''info'',
          icon_var := [Chr 0x2B07, Chr 0xFE0F]\<rparr>)"

text \<open>Pause, then decrease by two deltas, at lines 140, 152, 166 and 180.\<close>

definition pause_and_adjust :: "real \<Rightarrow> Deltas \<Rightarrow> string \<Rightarrow> locals \<Rightarrow> locals" where
  "pause_and_adjust current_insulin_flow deltas txt s =
    (let flow_change_amount = - delta2 deltas;
         new_flow_after_pause = max 0.0 (current_insulin_flow + flow_change_amount)
     in s\<lparr>action_title :=
            [Lit ''PAUSAR ('', Dec PAUSE_DURATION_MINUTES, Lit '' min) Y AJUSTAR (2 Deltas)''],
          details_var :=
            [[Lit txt],
             [Lit ''Pausar '', Dec PAUSE_DURATION_MINUTES, Lit '' min.''],
             [Lit ''Reanudar y disminuir '', F1 (delta2 deltas), Lit ''.'']],
          new_flow_rate_info := [Lit ''Post-pausa: '', F1 new_flow_after_pause],
          calculation_summary :=
            calculation_summary s @
              [Lit '' Pausa + '', Chr 0x394, Lit '': -'', F1 (delta2 deltas), Lit ''.''],
          is_critical := True,
          color_class := ''warning'',
          icon_var := [Chr 0x23F8, Chr 0xFE0F, Chr 0x2B07, Chr 0xFE0F],
          new_flow := new_flow_after_pause\<rparr>)"

text \<open>Increase by one delta, at lines 146, 160 and 174.\<close>

definition increase_1_delta :: "real \<Rightarrow> Deltas \<Rightarrow> string \<Rightarrow> locals \<Rightarrow> locals" where
  "increase_1_delta current_insulin_flow deltas txt s =
    (let flow_change_amount = delta1 deltas;
         new_flow' = current_insulin_flow + flow_change_amount
     in s\<lparr>action_title := [Lit ''AUMENTAR FLUJO (1 Delta)''],
          new_flow := new_flow',
          details_var := [[Lit txt, F1 (delta1 deltas), Lit ''.'']],
          new_flow_rate_info := [Lit ''Nuevo: '', F1 new_flow'],
          calculation_summary :=
            calculation_summary s @ [Lit '' '', Chr 0x394, Lit '': +'', F1 (delta1 deltas), Lit ''.''],
          color_class := ''info'',
          icon_var := [Chr 0x2B06, Chr 0xFE0F]\<rparr>)"

text \<open>Increase by two deltas, at lines 158 and 172.\<close>

definition increase_2_deltas :: "real \<Rightarrow> Deltas \<Rightarrow> string \<Rightarrow> locals \<Rightarrow> locals" where
  "increase_2_deltas current_insulin_flow deltas txt s =
    (let flow_change_amount = delta2 deltas;
         new_flow' = current_insulin_flow + flow_change_amount
     in s\<lparr>action_title := [Lit ''AUMENTAR FLUJO (2 Deltas)''],
          new_flow := new_flow',
          details_var := [[Lit txt, F1 (delta2 deltas), Lit ''.'']],
          new_flow_rate_info := [Lit ''Nuevo: '', F1 new_flow'],
          calculation_summary :=
            calculation_summary s @ [Lit '' '', Chr 0x394, Lit '': +'', F1 (delta2 deltas), Lit ''.''],
          color_class := ''info'',
          icon_var := [Chr 0x2B06, Chr 0xFE0F, Chr 0x2B06, Chr 0xFE0F]\<rparr>)"

text \<open>
  The text appended to \<^verbatim>\<open>calculation_summary\<close> on entering a band with two bounds
  (lines 134, 144 and 156).
\<close>

definition rango :: "real \<Rightarrow> real \<Rightarrow> locals \<Rightarrow> locals" where
  "rango lo hi s =
    s\<lparr>calculation_summary :=
        calculation_summary s @ [Lit '' Rango: '', F0 lo, Lit ''-'', F0 hi, Lit ''.'']\<rparr>"

text \<open>
  The protocol section, lines 110-180: the defaults, then the \<^verbatim>\<open>if\<close>/\<^verbatim>\<open>elif\<close>
  chain over the glucose bands, each with its chain over the glucose change. A chain
  that matches nothing leaves the locals as they are.
\<close>

definition protocol :: "InsulinCalculatorFormData \<Rightarrow> Deltas \<Rightarrow> locals" where
  "protocol data deltas =
    (let current_glucose = currentGlucose data;
         previous_glucose = previousGlucose data;
         current_insulin_flow = currentInsulinFlow data;
         glucose_change = current_glucose - previous_glucose;
         s = defaults data
     in
     if current_glucose < GLUCOSE_TARGET_LOW_1 then hypoglycemia current_glucose s
     else if GLUCOSE_TARGET_LOW_1 \<le> current_glucose \<and> current_glucose < GLUCOSE_TARGET_LOW_2 then
       (let s = rango GLUCOSE_TARGET_LOW_1 GLUCOSE_TARGET_LOW_2 s in
        if glucose_change > 0 then
          continue_unchanged current_insulin_flow ''Glucosa 75-99 y subiendo.'' s
        else if 0 \<ge> glucose_change \<and> glucose_change > - 25 then
          decrease_1_delta current_insulin_flow deltas
            ''Glucosa 75-99, estable o descenso < 25. Disminuir '' s
        else if glucose_change \<le> - 25 then
          pause_and_adjust current_insulin_flow deltas ''Glucosa 75-99, descenso >= 25.'' s
        else s)
     else if GLUCOSE_TARGET_LOW_2 \<le> current_glucose \<and> current_glucose < GLUCOSE_TARGET_MID_1 then
       (let s = rango GLUCOSE_TARGET_LOW_2 GLUCOSE_TARGET_MID_1 s in
        if glucose_change > 25 then
          increase_1_delta current_insulin_flow deltas
            ''Glucosa 100-139, aumento > 25. Aumentar '' s
        else if - 25 < glucose_change \<and> glucose_change \<le> 25 then
          continue_unchanged current_insulin_flow ''Glucosa 100-139, cambio -25 a +25.'' s
        else if - 50 \<le> glucose_change \<and> glucose_change \<le> - 26 then
          decrease_1_delta current_insulin_flow deltas
            ''Glucosa 100-139, descenso 26-50. Disminuir '' s
        else if glucose_change < - 50 then
          pause_and_adjust current_insulin_flow deltas ''Glucosa 100-139, descenso > 50.'' s
        else s)
     else if GLUCOSE_TARGET_MID_1 \<le> current_glucose \<and> current_glucose < GLUCOSE_TARGET_MID_2 then
       (let s = rango GLUCOSE_TARGET_MID_1 GLUCOSE_TARGET_MID_2 s in
        if glucose_change > 50 then
          increase_2_deltas current_insulin_flow deltas
            ''Glucosa 140-199, aumento > 50. Aumentar '' s
        else if 0 \<le> glucose_change \<and> glucose_change \<le> 50 then
          increase_1_delta current_insulin_flow deltas
            ''Glucosa 140-199, aumento <= 50 o estable. Aumentar '' s
        else if - 49 < glucose_change \<and> glucose_change < 0 then
          continue_unchanged current_insulin_flow ''Glucosa 140-199, descenso < 50.'' s
        else if - 75 \<le> glucose_change \<and> glucose_change \<le> - 50 then
          decrease_1_delta current_insulin_flow deltas
            ''Glucosa 140-199, descenso 50-75. Disminuir '' s
        else if glucose_change < - 75 then
          pause_and_adjust current_insulin_flow deltas ''Glucosa 140-199, descenso > 75.'' s
        else s)
     else if current_glucose \<ge> GLUCOSE_TARGET_MID_2 then
       (let s = s\<lparr>calculation_summary :=
                   calculation_summary s @ [Lit '' Rango: >= '', F0 GLUCOSE_TARGET_MID_2, Lit ''.'']\<rparr>
        in
        if glucose_change > 0 then
          increase_2_deltas current_insulin_flow deltas
            ''Glucosa >= 200 y subiendo. Aumentar '' s
        else if - 24 < glucose_change \<and> glucose_change \<le> 0 then
          increase_1_delta current_insulin_flow deltas
            ''Glucosa >= 200, estable o descenso < 25. Aumentar '' s
        else if - 75 \<le> glucose_change \<and> glucose_change \<le> - 25 then
          continue_unchanged current_insulin_flow ''Glucosa >= 200, descenso 25-75.'' s
        else if - 100 \<le> glucose_change \<and> glucose_change < - 75 then
          decrease_1_delta current_insulin_flow deltas
            ''Glucosa >= 200, descenso 75-100. Disminuir '' s
        else if glucose_change < - 100 then
          pause_and_adjust current_insulin_flow deltas ''Glucosa >= 200, descenso > 100.'' s
        else s)
     else s)"

text \<open>
  The whole function: the validation of line 80, the \<^verbatim>\<open>try\<close> of lines 95-108, the
  protocol, and the dictionary built from the locals at lines 183-188.
\<close>

definition calculate_insulin_adjustment :: "InsulinCalculatorFormData \<Rightarrow> InsulinRecommendation" where
  "calculate_insulin_adjustment data =
    (if \<not> passes_validation data then data_error
     else
       case try_get_deltas (currentInsulinFlow data) of
         Inl e \<Rightarrow> internal_error e (currentInsulinFlow data)
       | Inr deltas \<Rightarrow>
           (let s = protocol data deltas in
            \<lparr>actionTitle = action_title s,
             details = details_var s,
             newFlowRateInfo = new_flow_rate_info s,
             originalFlowRateInfo = original_flow_rate_info s,
             calculationSummary = Some (calculation_summary s),
             isCritical = is_critical s,
             colorClass = color_class s,
             icon = icon_var s\<rparr>))"

text \<open>
  The value of the local \<^verbatim>\<open>new_flow\<close> when the function reaches line 183; the
  result carries it only inside \<^verbatim>\<open>newFlowRateInfo\<close>.
\<close>

definition recommended_flow :: "InsulinCalculatorFormData \<Rightarrow> real" where
  "recommended_flow data = new_flow (protocol data (get_deltas (currentInsulinFlow data)))"

subsection \<open>Untyped arguments and exceptions\<close>

text \<open>
  The type \<^verbatim>\<open>float\<close> of the three inputs is an annotation only: the dictionary can
  hold any value, and a comparison of a value that is not a number with a number raises
  \<^verbatim>\<open>TypeError\<close>. To decide whether the exception handler of lines 97-108 can be
  entered, the two functions are modelled once more on such values, with every comparison
  of the source a step that may raise. A value is a float (a real, as above),
  \<^verbatim>\<open>None\<close> or a string; an exception is its message.
\<close>

datatype pyval = Float real | NoneVal | StrVal string

datatype exn = TypeError string

fun str_exn :: "exn \<Rightarrow> string" where
  "str_exn (TypeError message) = message"

fun type_name :: "pyval \<Rightarrow> string" where
  "type_name (Float x) = ''float''"
| "type_name NoneVal = ''NoneType''"
| "type_name (StrVal s) = ''str''"

text \<open>A numeric literal of the source, with the type Python gives it.\<close>

datatype literal = IntLit int | FloatLit real

fun literal_value :: "literal \<Rightarrow> real" where
  "literal_value (IntLit n) = of_int n"
| "literal_value (FloatLit x) = x"

fun literal_type :: "literal \<Rightarrow> string" where
  "literal_type (IntLit n) = ''int''"
| "literal_type (FloatLit x) = ''float''"

datatype comparison = Lt | Le | Gt | Ge

fun holds :: "comparison \<Rightarrow> real \<Rightarrow> real \<Rightarrow> bool" where
  "holds Lt x y = (x < y)"
| "holds Le x y = (x \<le> y)"
| "holds Gt x y = (x > y)"
| "holds Ge x y = (x \<ge> y)"

fun symbol :: "comparison \<Rightarrow> string" where
  "symbol Lt = ''<''"
| "symbol Le = ''<=''"
| "symbol Gt = ''>''"
| "symbol Ge = ''>=''"

text \<open>
  The message of the \<^verbatim>\<open>TypeError\<close> of a comparison, for instance
  \<^verbatim>\<open>'<' not supported between instances of 'NoneType' and 'int'\<close>.
\<close>

definition quoted :: "string \<Rightarrow> string" where
  "quoted s = CHR 0x27 # s @ [CHR 0x27]"

definition not_supported :: "comparison \<Rightarrow> string \<Rightarrow> string \<Rightarrow> exn" where
  "not_supported c left right =
    TypeError (quoted (symbol c) @ '' not supported between instances of '' @ quoted left
               @ '' and '' @ quoted right)"

text \<open>A value compared with a literal on its right, and with a literal on its left.\<close>

definition compare_vl :: "pyval \<Rightarrow> comparison \<Rightarrow> literal \<Rightarrow> exn + bool" where
  "compare_vl v c l =
    (case v of
       Float x \<Rightarrow> Inr (holds c x (literal_value l))
     | _ \<Rightarrow> Inl (not_supported c (type_name v) (literal_type l)))"

definition compare_lv :: "literal \<Rightarrow> comparison \<Rightarrow> pyval \<Rightarrow> exn + bool" where
  "compare_lv l c v =
    (case v of
       Float x \<Rightarrow> Inr (holds c (literal_value l) x)
     | _ \<Rightarrow> Inl (not_supported c (literal_type l) (type_name v)))"

text \<open>
  \<^verbatim>\<open>a and b\<close>, and a chained comparison \<^verbatim>\<open>x <= y < z\<close>, which is
  \<^verbatim>\<open>x <= y and y < z\<close>: the right operand is evaluated only when the left one is
  true, and an exception of the operand evaluated ends the evaluation.
\<close>

definition and_py :: "exn + bool \<Rightarrow> exn + bool \<Rightarrow> exn + bool" where
  "and_py a b = (case a of Inl e \<Rightarrow> Inl e | Inr x \<Rightarrow> if x then b else Inr False)"

text \<open>\<^verbatim>\<open>if c: return r\<close>, followed by the rest of the function body.\<close>

definition if_return :: "exn + bool \<Rightarrow> 'a \<Rightarrow> exn + 'a \<Rightarrow> exn + 'a" where
  "if_return c r rest = (case c of Inl e \<Rightarrow> Inl e | Inr x \<Rightarrow> if x then Inr r else rest)"

text \<open>\<^verbatim>\<open>get_deltas\<close> (lines 47-62) on any value.\<close>

definition get_deltas_py :: "pyval \<Rightarrow> exn + Deltas" where
  "get_deltas_py current_flow =
    if_return (compare_vl current_flow Lt (IntLit 4)) \<lparr>delta1 = 0.5, delta2 = 1.0\<rparr>
   (if_return (and_py (compare_lv (IntLit 4) Le current_flow)
                      (compare_vl current_flow Lt (FloatLit 6.5)))
      \<lparr>delta1 = 1.0, delta2 = 2.0\<rparr>
   (if_return (and_py (compare_lv (FloatLit 6.5) Le current_flow)
                      (compare_vl current_flow Lt (IntLit 10)))
      \<lparr>delta1 = 1.5, delta2 = 3.0\<rparr>
   (if_return (and_py (compare_lv (IntLit 10) Le current_flow)
                      (compare_vl current_flow Lt (IntLit 15)))
      \<lparr>delta1 = 2.0, delta2 = 4.0\<rparr>
   (if_return (and_py (compare_lv (IntLit 15) Le current_flow)
                      (compare_vl current_flow Lt (IntLit 20)))
      \<lparr>delta1 = 3.0, delta2 = 6.0\<rparr>
   (if_return (and_py (compare_lv (IntLit 20) Le current_flow)
                      (compare_vl current_flow Lt (IntLit 25)))
      \<lparr>delta1 = 4.0, delta2 = 8.0\<rparr>
   (if_return (compare_vl current_flow Ge (IntLit 25)) \<lparr>delta1 = 5.0, delta2 = 10.0\<rparr>
   (Inr \<lparr>delta1 = 0.0, delta2 = 0.0\<rparr>)))))))"

text \<open>
  The condition of line 80 under its \<^verbatim>\<open>not\<close>:
  \<^verbatim>\<open>current_glucose > 0 and previous_glucose > 0 and current_insulin_flow >= 0\<close>.
\<close>

definition line_80 :: "pyval \<Rightarrow> pyval \<Rightarrow> pyval \<Rightarrow> exn + bool" where
  "line_80 current_glucose previous_glucose current_insulin_flow =
    and_py (compare_vl current_glucose Gt (IntLit 0))
      (and_py (compare_vl previous_glucose Gt (IntLit 0))
              (compare_vl current_insulin_flow Ge (IntLit 0)))"

text \<open>
  \<^verbatim>\<open>calculate_insulin_adjustment\<close> (lines 75-188) on any three values. \<open>Inl\<close> is an
  exception that leaves the function; the only handler is the one around the call of
  \<^verbatim>\<open>get_deltas\<close>, and what it catches becomes the internal-error dictionary. From
  line 94 on the source subtracts, adds and formats the three values as floats. The last
  case stands for the \<^verbatim>\<open>TypeError\<close> of line 94 on other values; the test of line 80
  lets none of them through (lemma \<open>line_80_floats\<close> below).
\<close>

definition calculate_py :: "pyval \<Rightarrow> pyval \<Rightarrow> pyval \<Rightarrow> exn + InsulinRecommendation" where
  "calculate_py current_glucose previous_glucose current_insulin_flow =
    (case line_80 current_glucose previous_glucose current_insulin_flow of
       Inl e \<Rightarrow> Inl e
     | Inr valid \<Rightarrow>
        if \<not> valid then Inr data_error
        else
          (case (current_glucose, previous_glucose, current_insulin_flow) of
             (Float g, Float p, Float f) \<Rightarrow>
               (let data = \<lparr>currentGlucose = g, previousGlucose = p, currentInsulinFlow = f\<rparr> in
                case get_deltas_py current_insulin_flow of
                  Inl e \<Rightarrow> Inr (internal_error (str_exn e) f)
                | Inr deltas \<Rightarrow>
                    (let s = protocol data deltas in
                     Inr \<lparr>actionTitle = action_title s,
                          details = details_var s,
                          newFlowRateInfo = new_flow_rate_info s,
                          originalFlowRateInfo = original_flow_rate_info s,
                          calculationSummary = Some (calculation_summary s),
                          isCritical = is_critical s,
                          colorClass = color_class s,
                          icon = icon_var s\<rparr>))
           | _ \<Rightarrow>
               Inl (TypeError (''unsupported operand type(s) for -: ''
                      @ quoted (type_name current_glucose) @ '' and ''
                      @ quoted (type_name previous_glucose)))))"

section \<open>Properties\<close>

subsection \<open>Auxiliary facts\<close>

lemmas constants_defs =
  GLUCOSE_TARGET_LOW_1_def GLUCOSE_TARGET_LOW_2_def
  GLUCOSE_TARGET_MID_1_def GLUCOSE_TARGET_MID_2_def

lemmas action_defs =
  hypoglycemia_def continue_unchanged_def decrease_1_delta_def pause_and_adjust_def
  increase_1_delta_def increase_2_deltas_def rango_def

lemma calculate_valid:
  "passes_validation data \<Longrightarrow>
   calculate_insulin_adjustment data =
     (let s = protocol data (get_deltas (currentInsulinFlow data)) in
      \<lparr>actionTitle = action_title s,
       details = details_var s,
       newFlowRateInfo = new_flow_rate_info s,
       originalFlowRateInfo = original_flow_rate_info s,
       calculationSummary = Some (calculation_summary s),
       isCritical = is_critical s,
       colorClass = color_class s,
       icon = icon_var s\<rparr>)"
  by (simp add: calculate_insulin_adjustment_def try_get_deltas_def)

lemma calculate_invalid:
  "\<not> passes_validation data \<Longrightarrow> calculate_insulin_adjustment data = data_error"
  by (simp add: calculate_insulin_adjustment_def)

lemma band_cases:
  fixes g :: real
  obtains "g < 75" | "75 \<le> g" "g < 100" | "100 \<le> g" "g < 140" | "140 \<le> g" "g < 200"
    | "200 \<le> g"
  by linarith

lemma get_deltas_nonneg: "0 \<le> delta1 (get_deltas f) \<and> 0 \<le> delta2 (get_deltas f)"
  by (simp add: get_deltas_def)

lemma success_is_hold:
  assumes "color_class (protocol data deltas) = ''success''"
  shows "new_flow (protocol data deltas) = currentInsulinFlow data
       \<and> new_flow_rate_info (protocol data deltas) =
           [Lit ''Mantener: '', F1 (currentInsulinFlow data)]
       \<and> action_title (protocol data deltas) = [Lit ''CONTINUAR SIN CAMBIOS'']"
proof (cases "currentGlucose data" rule: band_cases)
  case 1
  with assms show ?thesis
    by (simp add: protocol_def constants_defs action_defs defaults_def Let_def)
next
  case 2
  with assms show ?thesis
    by (simp add: protocol_def constants_defs action_defs defaults_def Let_def
        split: if_splits)
next
  case 3
  with assms show ?thesis
    by (simp add: protocol_def constants_defs action_defs defaults_def Let_def
        split: if_splits)
next
  case 4
  with assms show ?thesis
    by (simp add: protocol_def constants_defs action_defs defaults_def Let_def
        split: if_splits)
next
  case 5
  with assms show ?thesis
    by (simp add: protocol_def constants_defs action_defs defaults_def Let_def
        split: if_splits)
qed

text \<open>What each title that changes the flow says of the locals, band by band.\<close>

lemma decrease_1_flow:
  assumes "action_title (protocol data deltas) = [Lit ''DISMINUIR FLUJO (1 Delta)'']"
  shows "new_flow (protocol data deltas) = max 0.0 (currentInsulinFlow data - delta1 deltas)
       \<and> new_flow_rate_info (protocol data deltas) =
           [Lit ''Nuevo: '', F1 (max 0.0 (currentInsulinFlow data - delta1 deltas))]"
proof (cases "currentGlucose data" rule: band_cases)
  case 1
  with assms show ?thesis
    by (simp add: protocol_def constants_defs action_defs defaults_def Let_def)
next
  case 2
  with assms show ?thesis
    by (simp add: protocol_def constants_defs action_defs defaults_def Let_def
        split: if_splits)
next
  case 3
  with assms show ?thesis
    by (simp add: protocol_def constants_defs action_defs defaults_def Let_def
        split: if_splits)
next
  case 4
  with assms show ?thesis
    by (simp add: protocol_def constants_defs action_defs defaults_def Let_def
        split: if_splits)
next
  case 5
  with assms show ?thesis
    by (simp add: protocol_def constants_defs action_defs defaults_def Let_def
        split: if_splits)
qed

lemma pause_flow:
  assumes "action_title (protocol data deltas) =
             [Lit ''PAUSAR ('', Dec PAUSE_DURATION_MINUTES, Lit '' min) Y AJUSTAR (2 Deltas)'']"
  shows "new_flow (protocol data deltas) = max 0.0 (currentInsulinFlow data - delta2 deltas)
       \<and> new_flow_rate_info (protocol data deltas) =
           [Lit ''Post-pausa: '', F1 (max 0.0 (currentInsulinFlow data - delta2 deltas))]"
proof (cases "currentGlucose data" rule: band_cases)
  case 1
  with assms show ?thesis
    by (simp add: protocol_def constants_defs action_defs defaults_def Let_def)
next
  case 2
  with assms show ?thesis
    by (simp add: protocol_def constants_defs action_defs defaults_def Let_def
        split: if_splits)
next
  case 3
  with assms show ?thesis
    by (simp add: protocol_def constants_defs action_defs defaults_def Let_def
        split: if_splits)
next
  case 4
  with assms show ?thesis
    by (simp add: protocol_def constants_defs action_defs defaults_def Let_def
        split: if_splits)
next
  case 5
  with assms show ?thesis
    by (simp add: protocol_def constants_defs action_defs defaults_def Let_def
        split: if_splits)
qed

lemma increase_1_flow:
  assumes "action_title (protocol data deltas) = [Lit ''AUMENTAR FLUJO (1 Delta)'']"
  shows "new_flow (protocol data deltas) = currentInsulinFlow data + delta1 deltas
       \<and> new_flow_rate_info (protocol data deltas) =
           [Lit ''Nuevo: '', F1 (currentInsulinFlow data + delta1 deltas)]"
proof (cases "currentGlucose data" rule: band_cases)
  case 1
  with assms show ?thesis
    by (simp add: protocol_def constants_defs action_defs defaults_def Let_def)
next
  case 2
  with assms show ?thesis
    by (simp add: protocol_def constants_defs action_defs defaults_def Let_def
        split: if_splits)
next
  case 3
  with assms show ?thesis
    by (simp add: protocol_def constants_defs action_defs defaults_def Let_def
        split: if_splits)
next
  case 4
  with assms show ?thesis
    by (simp add: protocol_def constants_defs action_defs defaults_def Let_def
        split: if_splits)
next
  case 5
  with assms show ?thesis
    by (simp add: protocol_def constants_defs action_defs defaults_def Let_def
        split: if_splits)
qed

lemma increase_2_flow:
  assumes "action_title (protocol data deltas) = [Lit ''AUMENTAR FLUJO (2 Deltas)'']"
  shows "new_flow (protocol data deltas) = currentInsulinFlow data + delta2 deltas
       \<and> new_flow_rate_info (protocol data deltas) =
           [Lit ''Nuevo: '', F1 (currentInsulinFlow data + delta2 deltas)]"
proof (cases "currentGlucose data" rule: band_cases)
  case 1
  with assms show ?thesis
    by (simp add: protocol_def constants_defs action_defs defaults_def Let_def)
next
  case 2
  with assms show ?thesis
    by (simp add: protocol_def constants_defs action_defs defaults_def Let_def
        split: if_splits)
next
  case 3
  with assms show ?thesis
    by (simp add: protocol_def constants_defs action_defs defaults_def Let_def
        split: if_splits)
next
  case 4
  with assms show ?thesis
    by (simp add: protocol_def constants_defs action_defs defaults_def Let_def
        split: if_splits)
next
  case 5
  with assms show ?thesis
    by (simp add: protocol_def constants_defs action_defs defaults_def Let_def
        split: if_splits)
qed

lemma new_flow_nonneg:
  assumes "0 \<le> currentInsulinFlow data" and "0 \<le> delta1 deltas" and "0 \<le> delta2 deltas"
  shows "0 \<le> new_flow (protocol data deltas)"
proof (cases "currentGlucose data" rule: band_cases)
  case 1
  with assms show ?thesis
    by (simp add: protocol_def constants_defs action_defs defaults_def Let_def)
next
  case 2
  with assms show ?thesis
    by (simp add: protocol_def constants_defs action_defs defaults_def Let_def)
next
  case 3
  with assms show ?thesis
    by (simp add: protocol_def constants_defs action_defs defaults_def Let_def)
next
  case 4
  with assms show ?thesis
    by (simp add: protocol_def constants_defs action_defs defaults_def Let_def)
next
  case 5
  with assms show ?thesis
    by (simp add: protocol_def constants_defs action_defs defaults_def Let_def)
qed

subsection \<open>The delta table\<close>

text \<open>
  C4. On every non-negative flow the function returns the row of the band table: (0.5, 1.0)
  below 4; (1.0, 2.0) from 4 to below 6.5; (1.5, 3.0) from 6.5 to below 10; (2.0, 4.0) from
  10 to below 15; (3.0, 6.0) from 15 to below 20; (4.0, 8.0) from 20 to below 25;
  (5.0, 10.0) from 25 on; and the second delta is twice the first. At the flows the
  specification lists: 3.9 gives (0.5, 1.0); 4.0 and 6.4 give (1.0, 2.0); 6.5 and 9.9 give
  (1.5, 3.0); 25.0 and 999.0 give (5.0, 10.0).
\<close>

theorem get_deltas_band_table:
  "(\<forall>current_flow. 0 \<le> current_flow \<longrightarrow>
       (current_flow < 4 \<longrightarrow> get_deltas current_flow = \<lparr>delta1 = 0.5, delta2 = 1.0\<rparr>)
     \<and> (4 \<le> current_flow \<and> current_flow < 6.5 \<longrightarrow>
          get_deltas current_flow = \<lparr>delta1 = 1.0, delta2 = 2.0\<rparr>)
     \<and> (6.5 \<le> current_flow \<and> current_flow < 10 \<longrightarrow>
          get_deltas current_flow = \<lparr>delta1 = 1.5, delta2 = 3.0\<rparr>)
     \<and> (10 \<le> current_flow \<and> current_flow < 15 \<longrightarrow>
          get_deltas current_flow = \<lparr>delta1 = 2.0, delta2 = 4.0\<rparr>)
     \<and> (15 \<le> current_flow \<and> current_flow < 20 \<longrightarrow>
          get_deltas current_flow = \<lparr>delta1 = 3.0, delta2 = 6.0\<rparr>)
     \<and> (20 \<le> current_flow \<and> current_flow < 25 \<longrightarrow>
          get_deltas current_flow = \<lparr>delta1 = 4.0, delta2 = 8.0\<rparr>)
     \<and> (25 \<le> current_flow \<longrightarrow> get_deltas current_flow = \<lparr>delta1 = 5.0, delta2 = 10.0\<rparr>)
     \<and> delta2 (get_deltas current_flow) = 2 * delta1 (get_deltas current_flow))
   \<and> get_deltas 3.9 = \<lparr>delta1 = 0.5, delta2 = 1.0\<rparr>
   \<and> get_deltas 4.0 = \<lparr>delta1 = 1.0, delta2 = 2.0\<rparr>
   \<and> get_deltas 6.4 = \<lparr>delta1 = 1.0, delta2 = 2.0\<rparr>
   \<and> get_deltas 6.5 = \<lparr>delta1 = 1.5, delta2 = 3.0\<rparr>
   \<and> get_deltas 9.9 = \<lparr>delta1 = 1.5, delta2 = 3.0\<rparr>
   \<and> get_deltas 25.0 = \<lparr>delta1 = 5.0, delta2 = 10.0\<rparr>
   \<and> get_deltas 999.0 = \<lparr>delta1 = 5.0, delta2 = 10.0\<rparr>"
  by (simp add: get_deltas_def)

theorem get_deltas_band_table_witness:
  "(0::real) \<le> 12.5 \<and> (10::real) \<le> 12.5 \<and> (12.5::real) < 15
   \<and> get_deltas 12.5 = \<lparr>delta1 = 2.0, delta2 = 4.0\<rparr>
   \<and> get_deltas 17 = \<lparr>delta1 = 3.0, delta2 = 6.0\<rparr>
   \<and> get_deltas 22 = \<lparr>delta1 = 4.0, delta2 = 8.0\<rparr>
   \<and> get_deltas 0 = \<lparr>delta1 = 0.5, delta2 = 1.0\<rparr>
   \<and> delta2 (get_deltas 22) = 2 * delta1 (get_deltas 22)"
proof -
  note table = get_deltas_band_table [THEN conjunct1, rule_format]
  have "get_deltas 12.5 = \<lparr>delta1 = 2.0, delta2 = 4.0\<rparr>"
    using table [of "12.5"] by simp
  moreover have "get_deltas 17 = \<lparr>delta1 = 3.0, delta2 = 6.0\<rparr>"
    using table [of 17] by simp
  moreover have "get_deltas 22 = \<lparr>delta1 = 4.0, delta2 = 8.0\<rparr>"
    using table [of 22] by simp
  moreover have "get_deltas 0 = \<lparr>delta1 = 0.5, delta2 = 1.0\<rparr>"
    using table [of 0] by simp
  ultimately show ?thesis by simp
qed

text \<open>
  C8. On non-negative flows the function always returns a row of the table (never the
  fallback pair of line 62), and both deltas are monotonically non-decreasing in the
  flow.
\<close>

theorem get_deltas_total_monotone:
  assumes "0 \<le> a" and "a \<le> b"
  shows "get_deltas a \<in> set [\<lparr>delta1 = 0.5, delta2 = 1.0\<rparr>, \<lparr>delta1 = 1.0, delta2 = 2.0\<rparr>,
                              \<lparr>delta1 = 1.5, delta2 = 3.0\<rparr>, \<lparr>delta1 = 2.0, delta2 = 4.0\<rparr>,
                              \<lparr>delta1 = 3.0, delta2 = 6.0\<rparr>, \<lparr>delta1 = 4.0, delta2 = 8.0\<rparr>,
                              \<lparr>delta1 = 5.0, delta2 = 10.0\<rparr>]
       \<and> delta1 (get_deltas a) \<le> delta1 (get_deltas b)
       \<and> delta2 (get_deltas a) \<le> delta2 (get_deltas b)"
  using assms by (simp add: get_deltas_def)

theorem get_deltas_total_monotone_witness:
  "(0::real) \<le> 3.9 \<and> (3.9::real) \<le> 17
   \<and> delta1 (get_deltas 3.9) \<le> delta1 (get_deltas 17)
   \<and> delta2 (get_deltas 3.9) \<le> delta2 (get_deltas 17)
   \<and> delta1 (get_deltas 3.9) = 0.5 \<and> delta1 (get_deltas 17) = 3.0"
proof -
  have "delta1 (get_deltas 3.9) \<le> delta1 (get_deltas 17)
      \<and> delta2 (get_deltas 3.9) \<le> delta2 (get_deltas 17)"
    using get_deltas_total_monotone [of "3.9" 17] by simp
  moreover have "delta1 (get_deltas 3.9) = 0.5 \<and> delta1 (get_deltas 17) = 3.0"
    by (simp add: get_deltas_def)
  ultimately show ?thesis by simp
qed

text \<open>
  C2, as the specification states it: a negative flow gives the pair (0, 0). It does not:
  the first test of the function, \<^verbatim>\<open>current_flow < 4\<close>, has no lower bound, so the
  flow -1 gives the first row of the table.
\<close>

theorem get_deltas_negative_counterexample:
  "get_deltas (- 1) \<noteq> \<lparr>delta1 = 0, delta2 = 0\<rparr>"
  by (simp add: get_deltas_def)

text \<open>
  C2, amended: for every negative flow the function returns the first row of the table,
  (0.5, 1.0), and does not fail.
\<close>

theorem get_deltas_negative:
  assumes "current_flow < 0"
  shows "get_deltas current_flow = \<lparr>delta1 = 0.5, delta2 = 1.0\<rparr>"
  using assms by (simp add: get_deltas_def)

theorem get_deltas_negative_witness:
  "(- 0.1 :: real) < 0 \<and> get_deltas (- 0.1) = \<lparr>delta1 = 0.5, delta2 = 1.0\<rparr>"
  using get_deltas_negative [of "- 0.1"] by simp

subsection \<open>The recommendation engine\<close>

text \<open>
  C1. For every input that passes the validation and whose current glucose is below 75,
  the result is the hypoglycemia recommendation: its title, a new flow of 0.0 shown as a
  suspension, critical, colour class error. Nothing is assumed of the previous glucose
  beyond the validation, so the glucose change plays no part.
\<close>

theorem hypoglycemia_recommendation:
  assumes "passes_validation data" and "currentGlucose data < 75"
  shows "actionTitle (calculate_insulin_adjustment data) = [Chr 0xA1, Lit ''HIPOGLUCEMIA!'']
       \<and> recommended_flow data = 0.0
       \<and> newFlowRateInfo (calculate_insulin_adjustment data) =
           [Lit ''Nuevo flujo sugerido: '', F1 0.0, Lit '' cc/h (SUSPENDER)'']
       \<and> isCritical (calculate_insulin_adjustment data) = True
       \<and> colorClass (calculate_insulin_adjustment data) = ''error''"
  using assms
  by (simp add: calculate_valid recommended_flow_def protocol_def constants_defs
      hypoglycemia_def Let_def)

theorem hypoglycemia_recommendation_witness:
  "passes_validation \<lparr>currentGlucose = 70, previousGlucose = 90, currentInsulinFlow = 5\<rparr>
   \<and> actionTitle (calculate_insulin_adjustment
        \<lparr>currentGlucose = 70, previousGlucose = 90, currentInsulinFlow = 5\<rparr>) =
       [Chr 0xA1, Lit ''HIPOGLUCEMIA!'']
   \<and> recommended_flow \<lparr>currentGlucose = 70, previousGlucose = 90, currentInsulinFlow = 5\<rparr> = 0
   \<and> colorClass (calculate_insulin_adjustment
        \<lparr>currentGlucose = 70, previousGlucose = 50, currentInsulinFlow = 5\<rparr>) = ''error''"
  using hypoglycemia_recommendation
          [of "\<lparr>currentGlucose = 70, previousGlucose = 90, currentInsulinFlow = 5\<rparr>"]
        hypoglycemia_recommendation
          [of "\<lparr>currentGlucose = 70, previousGlucose = 50, currentInsulinFlow = 5\<rparr>"]
  by (simp add: passes_validation_def)

text \<open>
  C6. For every input that passes the validation, with current glucose in [100, 140) and a
  glucose change strictly between -26 and -25, no sub-branch matches and the result is the
  default: the review title, colour class warning, not critical, the flow unchanged.
\<close>

theorem target_band_gap_default:
  assumes "passes_validation data"
    and "100 \<le> currentGlucose data" and "currentGlucose data < 140"
    and "- 26 < currentGlucose data - previousGlucose data"
    and "currentGlucose data - previousGlucose data < - 25"
  shows "actionTitle (calculate_insulin_adjustment data) = [Lit ''Revisar Datos/Protocolo'']
       \<and> colorClass (calculate_insulin_adjustment data) = ''warning''
       \<and> isCritical (calculate_insulin_adjustment data) = False
       \<and> recommended_flow data = currentInsulinFlow data
       \<and> newFlowRateInfo (calculate_insulin_adjustment data) =
           [Lit ''Mantener flujo: '', F1 (currentInsulinFlow data), Lit '' cc/h'']"
  using assms
  by (simp add: calculate_valid recommended_flow_def protocol_def constants_defs action_defs
      defaults_def Let_def)

theorem target_band_gap_default_witness:
  "passes_validation \<lparr>currentGlucose = 120, previousGlucose = 145.5, currentInsulinFlow = 5\<rparr>
   \<and> actionTitle (calculate_insulin_adjustment
        \<lparr>currentGlucose = 120, previousGlucose = 145.5, currentInsulinFlow = 5\<rparr>) =
       [Lit ''Revisar Datos/Protocolo'']
   \<and> colorClass (calculate_insulin_adjustment
        \<lparr>currentGlucose = 120, previousGlucose = 145.5, currentInsulinFlow = 5\<rparr>) = ''warning''
   \<and> recommended_flow \<lparr>currentGlucose = 120, previousGlucose = 145.5, currentInsulinFlow = 5\<rparr> = 5"
  using target_band_gap_default
          [of "\<lparr>currentGlucose = 120, previousGlucose = 145.5, currentInsulinFlow = 5\<rparr>"]
  by (simp add: passes_validation_def)

lemma get_deltas_py_float: "get_deltas_py (Float x) = Inr (get_deltas x)"
  by (simp add: get_deltas_py_def get_deltas_def if_return_def and_py_def compare_vl_def
      compare_lv_def)

lemma get_deltas_py_raises:
  "get_deltas_py NoneVal = Inl (not_supported Lt ''NoneType'' ''int'')"
  "get_deltas_py (StrVal s) = Inl (not_supported Lt ''str'' ''int'')"
  by (simp_all add: get_deltas_py_def if_return_def compare_vl_def)

lemma line_80_float:
  "line_80 (Float g) (Float p) (Float f) =
     Inr (passes_validation \<lparr>currentGlucose = g, previousGlucose = p, currentInsulinFlow = f\<rparr>)"
  by (simp add: line_80_def and_py_def compare_vl_def passes_validation_def)

lemma line_80_floats:
  assumes "line_80 cg pg flow = Inr True"
  shows "\<exists>g p f. cg = Float g \<and> pg = Float p \<and> flow = Float f"
  using assms
  by (cases cg; cases pg; cases flow)
     (simp_all add: line_80_def and_py_def compare_vl_def split: if_splits)

lemma calculate_py_float:
  "calculate_py (Float g) (Float p) (Float f) =
     Inr (calculate_insulin_adjustment
            \<lparr>currentGlucose = g, previousGlucose = p, currentInsulinFlow = f\<rparr>)"
  by (simp add: calculate_py_def line_80_float get_deltas_py_float
      calculate_insulin_adjustment_def try_get_deltas_def Let_def)

lemma calculate_py_cases:
  assumes "calculate_py cg pg flow = Inr r"
  shows "r = data_error
       \<or> (\<exists>g p f. cg = Float g \<and> pg = Float p \<and> flow = Float f
            \<and> passes_validation \<lparr>currentGlucose = g, previousGlucose = p, currentInsulinFlow = f\<rparr>
            \<and> r = calculate_insulin_adjustment
                    \<lparr>currentGlucose = g, previousGlucose = p, currentInsulinFlow = f\<rparr>)"
proof (cases "line_80 cg pg flow")
  case (Inl e)
  with assms show ?thesis
    by (simp add: calculate_py_def)
next
  case (Inr valid)
  show ?thesis
  proof (cases valid)
    case False
    with Inr assms show ?thesis
      by (simp add: calculate_py_def)
  next
    case True
    from Inr True have l: "line_80 cg pg flow = Inr True"
      by simp
    from line_80_floats [OF l]
    obtain g p f where v: "cg = Float g" "pg = Float p" "flow = Float f"
      by blast
    with l have "passes_validation
        \<lparr>currentGlucose = g, previousGlucose = p, currentInsulinFlow = f\<rparr>"
      by (simp add: line_80_float)
    moreover from assms v have "r = calculate_insulin_adjustment
        \<lparr>currentGlucose = g, previousGlucose = p, currentInsulinFlow = f\<rparr>"
      by (simp add: calculate_py_float)
    ultimately show ?thesis
      using v by blast
  qed
qed

text \<open>
  C9. On three floats the function raises nothing: it returns, and what it returns is
  the result of the typed model. Whatever the three values are, a result has no
  calculation summary exactly when it is the data-error recommendation, and it is never
  the internal-error recommendation: the call of line 96 raises on a value that is not a
  float, but such a flow does not get past the test of line 80, and on a float the delta
  table is total.
\<close>

theorem summary_absent_iff_data_error:
  "calculate_py (Float g) (Float p) (Float f) =
     Inr (calculate_insulin_adjustment
            \<lparr>currentGlucose = g, previousGlucose = p, currentInsulinFlow = f\<rparr>)
   \<and> (\<forall>r. calculate_py current_glucose previous_glucose current_insulin_flow = Inr r \<longrightarrow>
          (calculationSummary r = None) = (r = data_error)
        \<and> (\<forall>e x. r \<noteq> internal_error e x))
   \<and> (\<forall>e. get_deltas_py current_insulin_flow = Inl e \<longrightarrow>
          (\<exists>e'. calculate_py current_glucose previous_glucose current_insulin_flow = Inl e')
        \<or> calculate_py current_glucose previous_glucose current_insulin_flow = Inr data_error)
   \<and> (calculationSummary (calculate_insulin_adjustment data) = None)
       = (calculate_insulin_adjustment data = data_error)
   \<and> (\<forall>e x. calculate_insulin_adjustment data \<noteq> internal_error e x)"
proof -
  have typed: "(calculationSummary (calculate_insulin_adjustment d) = None)
        = (calculate_insulin_adjustment d = data_error)
      \<and> (\<forall>e x. calculate_insulin_adjustment d \<noteq> internal_error e x)" for d
    by (cases "passes_validation d")
       (auto simp add: calculate_valid calculate_invalid Let_def data_error_def
          internal_error_def)
  have untyped: "(calculationSummary r = None) = (r = data_error)
      \<and> (\<forall>e x. r \<noteq> internal_error e x)"
    if "calculate_py current_glucose previous_glucose current_insulin_flow = Inr r" for r
    using calculate_py_cases [OF that] typed
    by (auto simp add: data_error_def internal_error_def)
  have handler: "(\<exists>e'. calculate_py current_glucose previous_glucose current_insulin_flow = Inl e')
      \<or> calculate_py current_glucose previous_glucose current_insulin_flow = Inr data_error"
    if "get_deltas_py current_insulin_flow = Inl e" for e
  proof (cases "calculate_py current_glucose previous_glucose current_insulin_flow")
    case (Inl e')
    then show ?thesis by blast
  next
    case (Inr r)
    from calculate_py_cases [OF this] that Inr show ?thesis
      by (auto simp add: get_deltas_py_float)
  qed
  show ?thesis
    using typed untyped handler by (simp add: calculate_py_float)
qed

theorem summary_absent_iff_data_error_witness:
  "calculate_py (Float 0) (Float 10) (Float 1) = Inr data_error
   \<and> calculationSummary data_error = None
   \<and> (\<exists>r. calculate_py (Float 185) (Float 170) (Float 4.2) = Inr r
          \<and> calculationSummary r \<noteq> None \<and> actionTitle r = [Lit ''AUMENTAR FLUJO (1 Delta)''])
   \<and> get_deltas_py NoneVal = Inl (not_supported Lt ''NoneType'' ''int'')
   \<and> calculate_py (Float 185) (Float 170) NoneVal = Inl (not_supported Ge ''NoneType'' ''int'')
   \<and> calculate_py (Float 0) (Float 170) NoneVal = Inr data_error"
proof -
  have a: "calculate_py (Float 0) (Float 10) (Float 1) = Inr data_error"
    by (simp add: calculate_py_def line_80_def and_py_def compare_vl_def)
  have b: "calculate_py (Float 185) (Float 170) NoneVal = Inl (not_supported Ge ''NoneType'' ''int'')"
    by (simp add: calculate_py_def line_80_def and_py_def compare_vl_def)
  have c: "calculate_py (Float 0) (Float 170) NoneVal = Inr data_error"
    by (simp add: calculate_py_def line_80_def and_py_def compare_vl_def)
  have d: "actionTitle (calculate_insulin_adjustment
        \<lparr>currentGlucose = 185, previousGlucose = 170, currentInsulinFlow = 4.2\<rparr>) =
      [Lit ''AUMENTAR FLUJO (1 Delta)'']"
    by (simp add: calculate_insulin_adjustment_def passes_validation_def
        try_get_deltas_def protocol_def constants_defs action_defs defaults_def Let_def)
  have e: "calculate_insulin_adjustment
        \<lparr>currentGlucose = 185, previousGlucose = 170, currentInsulinFlow = 4.2\<rparr> \<noteq> data_error"
    using d by (auto simp add: data_error_def)
  show ?thesis
    using summary_absent_iff_data_error
            [of 185 170 "4.2" "Float 0" "Float 10" "Float 1"
                "\<lparr>currentGlucose = 185, previousGlucose = 170, currentInsulinFlow = 4.2\<rparr>"]
          a b c d e get_deltas_py_raises(1)
    by (simp add: data_error_def)
qed

text \<open>
  C3. The result is the data-error recommendation (its title, both flow texts "N/A", no
  calculation summary, critical, colour class error) if and only if the validation
  fails, that is, unless the current glucose and the previous glucose are positive and
  the flow is not negative.
\<close>

theorem data_error_iff_validation_fails:
  "(calculate_insulin_adjustment data = data_error) = (\<not> passes_validation data)
   \<and> (actionTitle (calculate_insulin_adjustment data) = [Lit ''ERROR EN DATOS'']
        \<and> newFlowRateInfo (calculate_insulin_adjustment data) = [Lit ''N/A'']
        \<and> originalFlowRateInfo (calculate_insulin_adjustment data) = [Lit ''N/A'']
        \<and> calculationSummary (calculate_insulin_adjustment data) = None
        \<and> isCritical (calculate_insulin_adjustment data) = True
        \<and> colorClass (calculate_insulin_adjustment data) = ''error'')
       = (\<not> (currentGlucose data > 0 \<and> previousGlucose data > 0
              \<and> currentInsulinFlow data \<ge> 0))"
proof (cases "passes_validation data")
  case True
  then have "calculationSummary (calculate_insulin_adjustment data) \<noteq> None"
    by (simp add: calculate_valid Let_def)
  moreover from this have "calculate_insulin_adjustment data \<noteq> data_error"
    by (auto simp add: data_error_def)
  ultimately show ?thesis
    using True by (simp add: passes_validation_def)
next
  case False
  then have "calculate_insulin_adjustment data = data_error"
    by (rule calculate_invalid)
  with False show ?thesis
    by (simp add: passes_validation_def data_error_def)
qed

theorem data_error_iff_validation_fails_witness:
  "calculate_insulin_adjustment
     \<lparr>currentGlucose = 10, previousGlucose = 10, currentInsulinFlow = - 0.1\<rparr> = data_error
   \<and> calculate_insulin_adjustment
     \<lparr>currentGlucose = 0, previousGlucose = 10, currentInsulinFlow = 1\<rparr> = data_error
   \<and> calculate_insulin_adjustment
     \<lparr>currentGlucose = 1, previousGlucose = 1, currentInsulinFlow = 0\<rparr> \<noteq> data_error"
  using data_error_iff_validation_fails
          [of "\<lparr>currentGlucose = 10, previousGlucose = 10, currentInsulinFlow = - 0.1\<rparr>"]
        data_error_iff_validation_fails
          [of "\<lparr>currentGlucose = 0, previousGlucose = 10, currentInsulinFlow = 1\<rparr>"]
        data_error_iff_validation_fails
          [of "\<lparr>currentGlucose = 1, previousGlucose = 1, currentInsulinFlow = 0\<rparr>"]
  by (simp add: passes_validation_def)

text \<open>
  C5. For every input that passes the validation: when the result is a decrease by one
  delta, or a pause followed by a decrease by two deltas, the new flow is the maximum
  of 0.0 and the current flow less that delta; when the result is an increase by one or
  by two deltas, the new flow is the current flow plus that delta, with no upper clamp.
  The new flow is never negative. The delta is the one the table gives for the current
  flow, and the text of the new flow in the result shows the same number.
\<close>

theorem flow_floor_rule:
  assumes "passes_validation data"
  shows "(actionTitle (calculate_insulin_adjustment data) = [Lit ''DISMINUIR FLUJO (1 Delta)'']
          \<longrightarrow> recommended_flow data =
                max 0.0 (currentInsulinFlow data - delta1 (get_deltas (currentInsulinFlow data)))
              \<and> newFlowRateInfo (calculate_insulin_adjustment data) =
                [Lit ''Nuevo: '', F1 (recommended_flow data)])
       \<and> (actionTitle (calculate_insulin_adjustment data) =
            [Lit ''PAUSAR ('', Dec PAUSE_DURATION_MINUTES, Lit '' min) Y AJUSTAR (2 Deltas)'']
          \<longrightarrow> recommended_flow data =
                max 0.0 (currentInsulinFlow data - delta2 (get_deltas (currentInsulinFlow data)))
              \<and> newFlowRateInfo (calculate_insulin_adjustment data) =
                [Lit ''Post-pausa: '', F1 (recommended_flow data)])
       \<and> (actionTitle (calculate_insulin_adjustment data) = [Lit ''AUMENTAR FLUJO (1 Delta)'']
          \<longrightarrow> recommended_flow data =
                currentInsulinFlow data + delta1 (get_deltas (currentInsulinFlow data))
              \<and> newFlowRateInfo (calculate_insulin_adjustment data) =
                [Lit ''Nuevo: '', F1 (recommended_flow data)])
       \<and> (actionTitle (calculate_insulin_adjustment data) = [Lit ''AUMENTAR FLUJO (2 Deltas)'']
          \<longrightarrow> recommended_flow data =
                currentInsulinFlow data + delta2 (get_deltas (currentInsulinFlow data))
              \<and> newFlowRateInfo (calculate_insulin_adjustment data) =
                [Lit ''Nuevo: '', F1 (recommended_flow data)])
       \<and> 0 \<le> recommended_flow data"
proof -
  have "0 \<le> currentInsulinFlow data"
    using assms by (simp add: passes_validation_def)
  then have "0 \<le> recommended_flow data"
    unfolding recommended_flow_def
    using get_deltas_nonneg [of "currentInsulinFlow data"] by (simp add: new_flow_nonneg)
  then show ?thesis
    unfolding recommended_flow_def
    using decrease_1_flow [of data "get_deltas (currentInsulinFlow data)"]
      pause_flow [of data "get_deltas (currentInsulinFlow data)"]
      increase_1_flow [of data "get_deltas (currentInsulinFlow data)"]
      increase_2_flow [of data "get_deltas (currentInsulinFlow data)"]
    by (simp add: calculate_valid [OF assms] Let_def)
qed

theorem flow_floor_rule_witness:
  "passes_validation \<lparr>currentGlucose = 85, previousGlucose = 90, currentInsulinFlow = 0.3\<rparr>
   \<and> recommended_flow \<lparr>currentGlucose = 85, previousGlucose = 90, currentInsulinFlow = 0.3\<rparr> = 0
   \<and> recommended_flow \<lparr>currentGlucose = 120, previousGlucose = 146, currentInsulinFlow = 5\<rparr> = 4
   \<and> recommended_flow \<lparr>currentGlucose = 85, previousGlucose = 120, currentInsulinFlow = 0.3\<rparr> = 0
   \<and> recommended_flow \<lparr>currentGlucose = 150, previousGlucose = 230, currentInsulinFlow = 12\<rparr> = 8
   \<and> recommended_flow \<lparr>currentGlucose = 185, previousGlucose = 170, currentInsulinFlow = 4.2\<rparr> = 5.2
   \<and> recommended_flow \<lparr>currentGlucose = 250, previousGlucose = 200, currentInsulinFlow = 30\<rparr> = 40"
proof -
  have t1: "actionTitle (calculate_insulin_adjustment
              \<lparr>currentGlucose = 85, previousGlucose = 90, currentInsulinFlow = 0.3\<rparr>) =
            [Lit ''DISMINUIR FLUJO (1 Delta)'']"
    and t2: "actionTitle (calculate_insulin_adjustment
              \<lparr>currentGlucose = 120, previousGlucose = 146, currentInsulinFlow = 5\<rparr>) =
            [Lit ''DISMINUIR FLUJO (1 Delta)'']"
    and t3: "actionTitle (calculate_insulin_adjustment
              \<lparr>currentGlucose = 85, previousGlucose = 120, currentInsulinFlow = 0.3\<rparr>) =
            [Lit ''PAUSAR ('', Dec PAUSE_DURATION_MINUTES, Lit '' min) Y AJUSTAR (2 Deltas)'']"
    and t4: "actionTitle (calculate_insulin_adjustment
              \<lparr>currentGlucose = 150, previousGlucose = 230, currentInsulinFlow = 12\<rparr>) =
            [Lit ''PAUSAR ('', Dec PAUSE_DURATION_MINUTES, Lit '' min) Y AJUSTAR (2 Deltas)'']"
    and t5: "actionTitle (calculate_insulin_adjustment
              \<lparr>currentGlucose = 185, previousGlucose = 170, currentInsulinFlow = 4.2\<rparr>) =
            [Lit ''AUMENTAR FLUJO (1 Delta)'']"
    and t6: "actionTitle (calculate_insulin_adjustment
              \<lparr>currentGlucose = 250, previousGlucose = 200, currentInsulinFlow = 30\<rparr>) =
            [Lit ''AUMENTAR FLUJO (2 Deltas)'']"
    by (simp_all add: calculate_insulin_adjustment_def passes_validation_def
        try_get_deltas_def protocol_def constants_defs action_defs defaults_def Let_def)
  show ?thesis
    using flow_floor_rule
            [of "\<lparr>currentGlucose = 85, previousGlucose = 90, currentInsulinFlow = 0.3\<rparr>"]
          flow_floor_rule
            [of "\<lparr>currentGlucose = 120, previousGlucose = 146, currentInsulinFlow = 5\<rparr>"]
          flow_floor_rule
            [of "\<lparr>currentGlucose = 85, previousGlucose = 120, currentInsulinFlow = 0.3\<rparr>"]
          flow_floor_rule
            [of "\<lparr>currentGlucose = 150, previousGlucose = 230, currentInsulinFlow = 12\<rparr>"]
          flow_floor_rule
            [of "\<lparr>currentGlucose = 185, previousGlucose = 170, currentInsulinFlow = 4.2\<rparr>"]
          flow_floor_rule
            [of "\<lparr>currentGlucose = 250, previousGlucose = 200, currentInsulinFlow = 30\<rparr>"]
          t1 t2 t3 t4 t5 t6
    by (simp add: passes_validation_def get_deltas_def)
qed

text \<open>
  C7. In the glucose band [75, 100) the three tests on the glucose change (above 0; at
  most 0 and above -25; at most -25) are exhaustive and exclude each other. So for every
  input that passes the validation with current glucose in that band, exactly one test
  holds and its sub-branch gives the title; the locals are never left as the fall-through
  would leave them, and the title is never the default one.
\<close>

theorem low_normal_band_exhaustive:
  fixes data :: InsulinCalculatorFormData and c :: real
  assumes "passes_validation data"
    and "75 \<le> currentGlucose data" and "currentGlucose data < 100"
  defines "c \<equiv> currentGlucose data - previousGlucose data"
  shows "((c > 0 \<and> \<not> (0 \<ge> c \<and> c > - 25) \<and> \<not> c \<le> - 25
            \<and> actionTitle (calculate_insulin_adjustment data) = [Lit ''CONTINUAR SIN CAMBIOS''])
          \<or> (\<not> c > 0 \<and> (0 \<ge> c \<and> c > - 25) \<and> \<not> c \<le> - 25
            \<and> actionTitle (calculate_insulin_adjustment data) = [Lit ''DISMINUIR FLUJO (1 Delta)''])
          \<or> (\<not> c > 0 \<and> \<not> (0 \<ge> c \<and> c > - 25) \<and> c \<le> - 25
            \<and> actionTitle (calculate_insulin_adjustment data) =
                [Lit ''PAUSAR ('', Dec PAUSE_DURATION_MINUTES, Lit '' min) Y AJUSTAR (2 Deltas)'']))
       \<and> protocol data (get_deltas (currentInsulinFlow data)) \<noteq>
           rango GLUCOSE_TARGET_LOW_1 GLUCOSE_TARGET_LOW_2 (defaults data)
       \<and> actionTitle (calculate_insulin_adjustment data) \<noteq> [Lit ''Revisar Datos/Protocolo'']"
proof -
  have title: "actionTitle (calculate_insulin_adjustment data) =
      action_title (protocol data (get_deltas (currentInsulinFlow data)))"
    using assms(1) by (simp add: calculate_valid Let_def)
  have branch: "protocol data (get_deltas (currentInsulinFlow data)) =
      (let s = rango GLUCOSE_TARGET_LOW_1 GLUCOSE_TARGET_LOW_2 (defaults data) in
       if c > 0 then
         continue_unchanged (currentInsulinFlow data) ''Glucosa 75-99 y subiendo.'' s
       else if c > - 25 then
         decrease_1_delta (currentInsulinFlow data) (get_deltas (currentInsulinFlow data))
           ''Glucosa 75-99, estable o descenso < 25. Disminuir '' s
       else
         pause_and_adjust (currentInsulinFlow data) (get_deltas (currentInsulinFlow data))
           ''Glucosa 75-99, descenso >= 25.'' s)"
    using assms(2,3) unfolding c_def
    by (simp add: protocol_def constants_defs Let_def)
  have titles: "action_title (rango GLUCOSE_TARGET_LOW_1 GLUCOSE_TARGET_LOW_2 (defaults data)) =
      [Lit ''Revisar Datos/Protocolo'']"
    by (simp add: rango_def defaults_def)
  consider "c > 0" | "0 \<ge> c" "c > - 25" | "c \<le> - 25"
    by linarith
  then show ?thesis
  proof cases
    case 1
    then show ?thesis
      unfolding title branch
      by (simp add: Let_def continue_unchanged_def rango_def defaults_def)
  next
    case 2
    then show ?thesis
      unfolding title branch
      by (simp add: Let_def decrease_1_delta_def rango_def defaults_def)
  next
    case 3
    then show ?thesis
      unfolding title branch
      by (simp add: Let_def pause_and_adjust_def rango_def defaults_def)
  qed
qed

theorem low_normal_band_exhaustive_witness:
  "passes_validation \<lparr>currentGlucose = 85, previousGlucose = 80, currentInsulinFlow = 5\<rparr>
   \<and> actionTitle (calculate_insulin_adjustment
        \<lparr>currentGlucose = 85, previousGlucose = 80, currentInsulinFlow = 5\<rparr>) =
       [Lit ''CONTINUAR SIN CAMBIOS'']
   \<and> actionTitle (calculate_insulin_adjustment
        \<lparr>currentGlucose = 85, previousGlucose = 85, currentInsulinFlow = 5\<rparr>) =
       [Lit ''DISMINUIR FLUJO (1 Delta)'']
   \<and> actionTitle (calculate_insulin_adjustment
        \<lparr>currentGlucose = 75, previousGlucose = 100, currentInsulinFlow = 5\<rparr>) =
       [Lit ''PAUSAR ('', Dec PAUSE_DURATION_MINUTES, Lit '' min) Y AJUSTAR (2 Deltas)'']"
  using low_normal_band_exhaustive
          [of "\<lparr>currentGlucose = 85, previousGlucose = 80, currentInsulinFlow = 5\<rparr>"]
        low_normal_band_exhaustive
          [of "\<lparr>currentGlucose = 85, previousGlucose = 85, currentInsulinFlow = 5\<rparr>"]
        low_normal_band_exhaustive
          [of "\<lparr>currentGlucose = 75, previousGlucose = 100, currentInsulinFlow = 5\<rparr>"]
  by (simp add: passes_validation_def)

text \<open>
  C10. For every input that passes the validation, a result of colour class success is
  a hold: the new flow is the current flow, the text of the new flow is the maintain
  form, and the title is the one of the hold.
\<close>

theorem success_leaves_flow_unchanged:
  assumes "passes_validation data"
    and "colorClass (calculate_insulin_adjustment data) = ''success''"
  shows "recommended_flow data = currentInsulinFlow data
       \<and> newFlowRateInfo (calculate_insulin_adjustment data) =
           [Lit ''Mantener: '', F1 (currentInsulinFlow data)]
       \<and> actionTitle (calculate_insulin_adjustment data) = [Lit ''CONTINUAR SIN CAMBIOS'']"
proof -
  from assms have "color_class (protocol data (get_deltas (currentInsulinFlow data))) = ''success''"
    by (simp add: calculate_valid Let_def)
  from success_is_hold [OF this] show ?thesis
    unfolding recommended_flow_def
    by (simp add: calculate_valid [OF assms(1)] Let_def)
qed

theorem success_leaves_flow_unchanged_witness:
  "passes_validation \<lparr>currentGlucose = 110, previousGlucose = 85, currentInsulinFlow = 3.0\<rparr>
   \<and> colorClass (calculate_insulin_adjustment
        \<lparr>currentGlucose = 110, previousGlucose = 85, currentInsulinFlow = 3.0\<rparr>) = ''success''
   \<and> recommended_flow \<lparr>currentGlucose = 110, previousGlucose = 85, currentInsulinFlow = 3.0\<rparr> = 3.0"
proof -
  have c: "colorClass (calculate_insulin_adjustment
        \<lparr>currentGlucose = 110, previousGlucose = 85, currentInsulinFlow = 3.0\<rparr>) = ''success''"
    by (simp add: calculate_insulin_adjustment_def passes_validation_def
        try_get_deltas_def protocol_def constants_defs action_defs defaults_def Let_def)
  show ?thesis
    using success_leaves_flow_unchanged
            [of "\<lparr>currentGlucose = 110, previousGlucose = 85, currentInsulinFlow = 3.0\<rparr>"] c
    by (simp add: passes_validation_def)
qed

end
